theory Spec2Isabelle
  imports Complex_Main
begin

section \<open>Shared library behaviour: Python numbers and pygame rectangles\<close>

text \<open>
  Python's \<^verbatim>\<open>int(x)\<close> on a float truncates toward zero. Floats of the source
  (scale factors, gravity, the runner's score) are modelled as exact rationals.
\<close>

definition py_int :: "rat \<Rightarrow> int" where
  "py_int x = (if 0 \<le> x then \<lfloor>x\<rfloor> else \<lceil>x\<rceil>)"

datatype py_error = IndexError | ValueError

text \<open>
  Indexing a Python list of length \<^verbatim>\<open>n\<close> with \<^verbatim>\<open>i\<close>: the position read or written
  is \<^verbatim>\<open>i\<close> itself from 0 up, \<^verbatim>\<open>n + i\<close> for the negative indices down to \<^verbatim>\<open>-n\<close>,
  and anything else raises IndexError.
\<close>

definition py_position :: "nat \<Rightarrow> int \<Rightarrow> nat option" where
  "py_position n i =
     (if 0 \<le> i \<and> i < int n then Some (nat i)
      else if i < 0 \<and> - int n \<le> i then Some (nat (int n + i))
      else None)"

text \<open>
  \<^verbatim>\<open>pygame.Rect\<close>: integer left, top, width, height. \<^verbatim>\<open>colliderect\<close> as pygame 2
  computes it: a rectangle of zero width or height collides with nothing, otherwise
  the two spans must overlap strictly on both axes. \<^verbatim>\<open>move_ip\<close> shifts the origin.
\<close>

record pg_rect =
  r_left :: int
  r_top :: int
  r_width :: int
  r_height :: int

definition Rect :: "int \<Rightarrow> int \<Rightarrow> int \<Rightarrow> int \<Rightarrow> pg_rect" where
  "Rect l t w h = \<lparr>r_left = l, r_top = t, r_width = w, r_height = h\<rparr>"

definition r_right :: "pg_rect \<Rightarrow> int" where
  "r_right r = r_left r + r_width r"

definition r_bottom :: "pg_rect \<Rightarrow> int" where
  "r_bottom r = r_top r + r_height r"

definition r_centerx :: "pg_rect \<Rightarrow> int" where
  "r_centerx r = r_left r + r_width r div 2"

definition r_centery :: "pg_rect \<Rightarrow> int" where
  "r_centery r = r_top r + r_height r div 2"

definition colliderect :: "pg_rect \<Rightarrow> pg_rect \<Rightarrow> bool" where
  "colliderect a b =
     (if r_width a = 0 \<or> r_height a = 0 \<or> r_width b = 0 \<or> r_height b = 0 then False
      else min (r_left a) (r_left a + r_width a) < max (r_left b) (r_left b + r_width b)
         \<and> min (r_top a) (r_top a + r_height a) < max (r_top b) (r_top b + r_height b)
         \<and> max (r_left a) (r_left a + r_width a) > min (r_left b) (r_left b + r_width b)
         \<and> max (r_top a) (r_top a + r_height a) > min (r_top b) (r_top b + r_height b))"

definition move_ip :: "pg_rect \<Rightarrow> int \<Rightarrow> int \<Rightarrow> pg_rect" where
  "move_ip r dx dy = r\<lparr>r_left := r_left r + dx, r_top := r_top r + dy\<rparr>"

section \<open>Balloon engine (gui.py: init_balloons_game, start_balloons_game)\<close>

text \<open>
  One entry of \<^verbatim>\<open>waves_balloons[k]\<close>: the dictionary built in \<^verbatim>\<open>init_balloons\<close>
  with the keys rect, speed, time, is_combo, type, is_popped (the image is left out).
\<close>

record balloon =
  balloon_rect :: pg_rect
  balloon_speed :: int
  balloon_time :: int
  is_combo :: bool
  balloon_type :: int
  is_popped :: bool

record balloons_game =
  balloons_score :: int
  balloons_wave :: int
  max_balloons_waves :: int
  max_wave_time :: int
  waves_balloons :: "balloon list list"
  user_screen_width :: int
  user_screen_height :: int
  start_x_cam :: int
  start_y_cam :: int
  end_x_cam :: int
  end_y_cam :: int
  scale_x_cam :: rat
  scale_y_cam :: rat
  translation_x_cam :: int
  translation_y_cam :: int
  balloons_game_over :: bool

text \<open>
  The camera image of a tick, on which the fingertips are detected, is resized to
  \<^verbatim>\<open>(int(user_screen_width // 2.5), int(user_screen_height // 2.5))\<close>.
\<close>

definition balloon_screen_ratio :: rat where
  "balloon_screen_ratio = 5 / 2"

definition camera_size :: "int \<Rightarrow> int \<Rightarrow> int \<times> int" where
  "camera_size w h =
     (py_int (of_int \<lfloor>of_int w / balloon_screen_ratio\<rfloor>),
      py_int (of_int \<lfloor>of_int h / balloon_screen_ratio\<rfloor>))"

text \<open>
  \<^verbatim>\<open>img_with_rounded_corners(image, 30, 2, (0, 0, 0))\<close> of utils.py returns an image of
  shape \<^verbatim>\<open>(h + 2 * t, w + 2 * t)\<close> with \<^verbatim>\<open>t = 2\<close>.
\<close>

definition rounded_size :: "int \<times> int \<Rightarrow> int \<times> int" where
  "rounded_size wh = (fst wh + 2 * 2, snd wh + 2 * 2)"

text \<open>
  \<^verbatim>\<open>init_balloons_game\<close>, as far as the state goes: the place of the camera image in
  the background image, the scale from the background to the screen, the translation,
  score 0, wave 1, five waves of at most 20 seconds. The size of the background image
  (a resource file) and the waves (drawn at random by \<^verbatim>\<open>init_balloons\<close>) are parameters.
\<close>

definition init_balloons_game :: "int \<Rightarrow> int \<Rightarrow> int \<Rightarrow> int \<Rightarrow> balloon list list \<Rightarrow> balloons_game" where
  "init_balloons_game screen_w screen_h bg_width bg_height waves =
     (let image_width = fst (rounded_size (camera_size screen_w screen_h));
          image_height = snd (rounded_size (camera_size screen_w screen_h));
          top_left_x = (bg_width - image_width) div 2;
          top_left_y = (bg_height - image_height) div 2;
          sx = of_int screen_w / of_int bg_width;
          sy = of_int screen_h / of_int bg_height
      in \<lparr>balloons_score = 0, balloons_wave = 1, max_balloons_waves = 5,
          max_wave_time = 20, waves_balloons = waves,
          user_screen_width = screen_w, user_screen_height = screen_h,
          start_x_cam = top_left_x, start_y_cam = top_left_y + 50,
          end_x_cam = top_left_x + image_width,
          end_y_cam = top_left_y + image_height + 50,
          scale_x_cam = sx, scale_y_cam = sy,
          translation_x_cam = py_int (of_int top_left_x * sx),
          translation_y_cam = py_int (of_int (top_left_y + 50) * sy),
          balloons_game_over = False\<rparr>)"

text \<open>
  The coordinate mapping of \<^verbatim>\<open>start_balloons_game\<close>:
  \<^verbatim>\<open>(int(fc[0] * scale_x_cam) + translation_x_cam, int(fc[1] * scale_y_cam) + translation_y_cam)\<close>.
\<close>

definition map_finger_center :: "rat \<Rightarrow> rat \<Rightarrow> int \<Rightarrow> int \<Rightarrow> int \<times> int \<Rightarrow> int \<times> int" where
  "map_finger_center sx sy tx ty finger_center =
     (py_int (of_int (fst finger_center) * sx) + tx,
      py_int (of_int (snd finger_center) * sy) + ty)"

text \<open>
  The two loops that fill \<^verbatim>\<open>fingers_centers_rects\<close>: a finger that is not extended is
  the marker \<^verbatim>\<open>(-1, -1)\<close> and is skipped; every other one becomes a 20 by 20 rectangle
  at its mapped position. A hand that was not detected (the \<^verbatim>\<open>try\<close> fails) counts as
  five markers.
\<close>

definition finger_rects_of :: "balloons_game \<Rightarrow> (int \<times> int) list \<Rightarrow> pg_rect list" where
  "finger_rects_of g fingers_centers =
     map (\<lambda>fc. let p = map_finger_center (scale_x_cam g) (scale_y_cam g)
                          (translation_x_cam g) (translation_y_cam g) fc
               in Rect (fst p) (snd p) 20 20)
         (filter (\<lambda>fc. fc \<noteq> (-1, -1)) fingers_centers)"

definition hand_fingers :: "(int \<times> int) list option \<Rightarrow> (int \<times> int) list" where
  "hand_fingers hand = (case hand of None \<Rightarrow> replicate 5 (-1, -1) | Some fcs \<Rightarrow> fcs)"

definition fingers_centers_rects :: "balloons_game \<Rightarrow> (int \<times> int) list option \<Rightarrow>
    (int \<times> int) list option \<Rightarrow> pg_rect list" where
  "fingers_centers_rects g right_hand left_hand =
     finger_rects_of g (hand_fingers right_hand) @ finger_rects_of g (hand_fingers left_hand)"

text \<open>
  The inner loop over the fingertip rectangles: the first one that collides with the
  balloon adds the points of the balloon's type, marks it popped and breaks.
\<close>

fun pop_by_fingers :: "pg_rect list \<Rightarrow> balloon \<Rightarrow> int \<Rightarrow> balloon \<times> int" where
  "pop_by_fingers [] b score = (b, score)"
| "pop_by_fingers (finger_rect # rest) b score =
     (if colliderect (balloon_rect b) finger_rect then
        (b\<lparr>is_popped := True\<rparr>,
         (if balloon_type b = 1 then max 0 (score + 2)
          else if balloon_type b = 2 then max 0 (score + 3)
          else if balloon_type b = 3 then max 0 (score + 5)
          else max 0 (score + 1)))
      else pop_by_fingers rest b score)"

text \<open>
  The loop over the wave's balloons, for one tick. A balloon whose time has not come, or
  that is popped, is skipped. A balloon at the top line
  (\<^verbatim>\<open>rect.top <= start_y_cam + rect.height\<close>) is marked popped, costs a point if it is
  not a combo balloon, and ends the loop (\<^verbatim>\<open>break\<close>). Any other balloon moves up by its
  speed and is then tested against the fingertips.
\<close>

fun balloons_loop :: "int \<Rightarrow> int \<Rightarrow> pg_rect list \<Rightarrow> balloon list \<Rightarrow> int \<Rightarrow> balloon list \<times> int" where
  "balloons_loop elapsed_time sy fingers [] score = ([], score)"
| "balloons_loop elapsed_time sy fingers (b # bs) score =
     (if elapsed_time < balloon_time b then
        (b # fst (balloons_loop elapsed_time sy fingers bs score),
         snd (balloons_loop elapsed_time sy fingers bs score))
      else if is_popped b then
        (b # fst (balloons_loop elapsed_time sy fingers bs score),
         snd (balloons_loop elapsed_time sy fingers bs score))
      else if r_top (balloon_rect b) \<le> sy + r_height (balloon_rect b) then
        (b\<lparr>is_popped := True\<rparr> # bs,
         (if \<not> is_combo b then max 0 (score - 1) else score))
      else
        (let moved = b\<lparr>balloon_rect := move_ip (balloon_rect b) 0 (- balloon_speed b)\<rparr>;
             hit = pop_by_fingers fingers moved score
         in (fst hit # fst (balloons_loop elapsed_time sy fingers bs (snd hit)),
             snd (balloons_loop elapsed_time sy fingers bs (snd hit)))))"

text \<open>
  \<^verbatim>\<open>start_balloons_game_timer\<close>, as far as the state goes: past the last wave it calls
  \<^verbatim>\<open>end_balloons_game\<close>, which clamps the score once more and never returns to play.
\<close>

definition start_balloons_game_timer :: "balloons_game \<Rightarrow> balloons_game" where
  "start_balloons_game_timer g =
     (if balloons_wave g > max_balloons_waves g
      then g\<lparr>balloons_score := max 0 (balloons_score g), balloons_game_over := True\<rparr>
      else g)"

text \<open>
  One pass of the \<^verbatim>\<open>while True\<close> loop of \<^verbatim>\<open>start_balloons_game\<close>. Inputs of the tick:
  the whole seconds since the wave started and the fingertip lists of the two hands.
  The wave's list is sorted by appearance time in place (a stable sort), scanned, and
  written back; the wave is over when \<^verbatim>\<open>len(balloons) == 0 or elapsed_time > max_wave_time\<close>.
\<close>

definition start_balloons_game_tick :: "int \<Rightarrow> (int \<times> int) list option \<Rightarrow>
    (int \<times> int) list option \<Rightarrow> balloons_game \<Rightarrow> py_error + balloons_game" where
  "start_balloons_game_tick elapsed_time right_hand left_hand g =
     (if balloons_game_over g then Inr g
      else case py_position (length (waves_balloons g)) (balloons_wave g - 1) of
        None \<Rightarrow> Inl IndexError
      | Some k \<Rightarrow>
          (let balloons = sort_key balloon_time (waves_balloons g ! k);
               res = balloons_loop elapsed_time (start_y_cam g)
                       (fingers_centers_rects g right_hand left_hand) balloons
                       (balloons_score g);
               g1 = g\<lparr>waves_balloons := (waves_balloons g)[k := fst res],
                      balloons_score := snd res\<rparr>
           in if length (fst res) = 0 \<or> elapsed_time > max_wave_time g
              then Inr (start_balloons_game_timer (g1\<lparr>balloons_wave := balloons_wave g1 + 1\<rparr>))
              else Inr g1))"

text \<open>
  The loop of \<^verbatim>\<open>start_balloons_game\<close> over a list of ticks, with every state it passes
  through. An IndexError would end it.
\<close>

fun start_balloons_game :: "(int \<times> (int \<times> int) list option \<times> (int \<times> int) list option) list \<Rightarrow>
    balloons_game \<Rightarrow> balloons_game list" where
  "start_balloons_game [] g = [g]"
| "start_balloons_game ((elapsed_time, right_hand, left_hand) # rest) g =
     (case start_balloons_game_tick elapsed_time right_hand left_hand g of
        Inl e \<Rightarrow> [g]
      | Inr g' \<Rightarrow> g # start_balloons_game rest g')"

text \<open>
  The dictionary that \<^verbatim>\<open>init_balloons\<close> appends for one balloon: a 100 by 100
  rectangle at the drawn position, not popped.
\<close>

definition new_balloon :: "int \<Rightarrow> int \<Rightarrow> int \<Rightarrow> int \<Rightarrow> bool \<Rightarrow> int \<Rightarrow> balloon" where
  "new_balloon x y speed apperance_time combo ty =
     \<lparr>balloon_rect = Rect x y 100 100, balloon_speed = speed,
      balloon_time = apperance_time, is_combo = combo, balloon_type = ty,
      is_popped = False\<rparr>"

text \<open>
  Words for the three tests at the head of the loop body: a balloon is in play when its
  time has come and it is not popped; it is at the top when
  \<^verbatim>\<open>rect.top <= start_y_cam + rect.height\<close>; a balloon in play at the top makes the
  loop \<^verbatim>\<open>break\<close>.
\<close>

definition in_play :: "int \<Rightarrow> balloon \<Rightarrow> bool" where
  "in_play elapsed_time b = (\<not> elapsed_time < balloon_time b \<and> \<not> is_popped b)"

definition at_top :: "int \<Rightarrow> balloon \<Rightarrow> bool" where
  "at_top sy b = (r_top (balloon_rect b) \<le> sy + r_height (balloon_rect b))"

definition leaves_loop :: "int \<Rightarrow> int \<Rightarrow> balloon \<Rightarrow> bool" where
  "leaves_loop elapsed_time sy b = (in_play elapsed_time b \<and> at_top sy b)"

text \<open>
  A first wave as \<^verbatim>\<open>init_balloons\<close> can draw it (five balloons, one of them a combo
  balloon of tier 2, spawned at \<^verbatim>\<open>end_y_cam + 100 = 908\<close> on a 1920 by 1080 screen),
  after every one of its balloons has been popped; and four later waves of the least
  sizes 15, 25, 35 and 45.
\<close>

definition popped_wave :: "balloon list" where
  "popped_wave = map (\<lambda>b. b\<lparr>is_popped := True\<rparr>)
     [new_balloon 700 908 5 0 False 0, new_balloon 800 908 6 1 False 0,
      new_balloon 900 908 12 2 True 2, new_balloon 1000 908 7 3 False 0,
      new_balloon 1100 908 4 4 False 0]"

definition later_waves :: "balloon list list" where
  "later_waves =
     [replicate 15 (new_balloon 900 908 8 3 False 0),
      replicate 25 (new_balloon 900 908 9 3 False 0),
      replicate 35 (new_balloon 900 908 10 3 False 0),
      replicate 45 (new_balloon 900 908 12 3 False 0)]"

section \<open>Hand-position provider (mediapipe_hand_tracking.py: findPosition)\<close>

text \<open>
  A slot of \<^verbatim>\<open>hands_data\<close>: either the initial tuple \<^verbatim>\<open>(-1, -1, (-1, -1), "nth")\<close> or a
  found hand with its landmark list \<^verbatim>\<open>[id, cx, cy]\<close>, bounding box, centre and side label.
\<close>

datatype hand_slot =
    Nth
  | Found "(nat \<times> int \<times> int) list" "int \<times> int \<times> int \<times> int" "int \<times> int" string

definition slot_side :: "hand_slot \<Rightarrow> string" where
  "slot_side s = (case s of Nth \<Rightarrow> ''nth'' | Found lmsList bbox center side \<Rightarrow> side)"

definition slot_center :: "hand_slot \<Rightarrow> int \<times> int" where
  "slot_center s = (case s of Nth \<Rightarrow> (-1, -1) | Found lmsList bbox center side \<Rightarrow> center)"

text \<open>
  A detected hand is its list of normalised landmarks \<^verbatim>\<open>(lm.x, lm.y)\<close>; the frame has
  \<^verbatim>\<open>w\<close> columns and \<^verbatim>\<open>h\<close> rows. The pixel position of a landmark is
  \<^verbatim>\<open>int(lm.x * w), int(lm.y * h)\<close>.
\<close>

definition lms_of :: "int \<Rightarrow> int \<Rightarrow> (rat \<times> rat) list \<Rightarrow> (nat \<times> int \<times> int) list" where
  "lms_of w h landmark =
     map (\<lambda>(i, lm). (i, py_int (fst lm * of_int w), py_int (snd lm * of_int h)))
         (enumerate 0 landmark)"

definition hand_center_x :: "int \<Rightarrow> int \<Rightarrow> (rat \<times> rat) list \<Rightarrow> int" where
  "hand_center_x w h landmark =
     (let xList = map (\<lambda>l. fst (snd l)) (lms_of w h landmark)
      in (Min (set xList) + Max (set xList)) div 2)"

definition hand_center_y :: "int \<Rightarrow> int \<Rightarrow> (rat \<times> rat) list \<Rightarrow> int" where
  "hand_center_y w h landmark =
     (let yList = map (\<lambda>l. snd (snd l)) (lms_of w h landmark)
      in (Min (set yList) + Max (set yList)) div 2)"

text \<open>
  The body of the loop over the detected hands, for one hand:
  \<^verbatim>\<open>side = size_frame // 2\<close>; the hand goes to slot 0 with the label "left" when
  \<^verbatim>\<open>center_x < side\<close>, to slot 1 with the label "right" when \<^verbatim>\<open>center_x > side\<close>, and
  nowhere otherwise. \<^verbatim>\<open>min\<close> of an empty list raises ValueError.
\<close>

definition place_hand :: "int \<Rightarrow> int \<Rightarrow> int \<Rightarrow> (rat \<times> rat) list \<Rightarrow>
    hand_slot \<times> hand_slot \<Rightarrow> py_error + hand_slot \<times> hand_slot" where
  "place_hand w h size_frame landmark hands_data =
     (if landmark = [] then Inl ValueError
      else
        (let lmsList = lms_of w h landmark;
             xList = map (\<lambda>l. fst (snd l)) lmsList;
             yList = map (\<lambda>l. snd (snd l)) lmsList;
             xmin = Min (set xList); xmax = Max (set xList);
             ymin = Min (set yList); ymax = Max (set yList);
             bbox = (xmin, ymin, xmax, ymax);
             center_x = (xmin + xmax) div 2;
             center_y = (ymin + ymax) div 2;
             side = size_frame div 2
         in if center_x < side then
              Inr (Found lmsList bbox (center_x, center_y) ''left'', snd hands_data)
            else if center_x > side then
              Inr (fst hands_data, Found lmsList bbox (center_x, center_y) ''right'')
            else Inr hands_data))"

text \<open>
  The loop itself: \<^verbatim>\<open>for handNo, myHand in enumerate(multi_hand_landmarks)\<close>, left by
  \<^verbatim>\<open>break\<close> once \<^verbatim>\<open>handNo >= maxHands\<close>.
\<close>

fun findPosition_loop :: "nat \<Rightarrow> int \<Rightarrow> int \<Rightarrow> int \<Rightarrow> nat \<Rightarrow> (rat \<times> rat) list list \<Rightarrow>
    hand_slot \<times> hand_slot \<Rightarrow> py_error + hand_slot \<times> hand_slot" where
  "findPosition_loop maxHands w h size_frame handNo [] hands_data = Inr hands_data"
| "findPosition_loop maxHands w h size_frame handNo (myHand # rest) hands_data =
     (if handNo \<ge> maxHands then Inr hands_data
      else case place_hand w h size_frame myHand hands_data of
        Inl e \<Rightarrow> Inl e
      | Inr hdata \<Rightarrow> findPosition_loop maxHands w h size_frame (Suc handNo) rest hdata)"

definition findPosition :: "nat \<Rightarrow> int \<Rightarrow> int \<Rightarrow> int \<Rightarrow> (rat \<times> rat) list list \<Rightarrow>
    py_error + hand_slot \<times> hand_slot" where
  "findPosition maxHands w h size_frame multi_hand_landmarks =
     findPosition_loop maxHands w h size_frame 0 multi_hand_landmarks (Nth, Nth)"

section \<open>Pong engine (gui.py: init_pong_game, start_pong_game, end_pong_game)\<close>

definition ball_raduis :: int where "ball_raduis = 10"
definition paddle_width :: int where "paddle_width = 10"
definition paddle_height :: int where "paddle_height = 80"
definition speed_increment_interval :: rat where "speed_increment_interval = 7"
definition speed_increment :: int where "speed_increment = 3"

record pong_game =
  ball_x :: int
  ball_y :: int
  ball_speed_x :: int
  ball_speed_y :: int
  paddle1_x :: int
  paddle1_y :: int
  paddle2_x :: int
  paddle2_y :: int
  player1_score :: int
  player2_score :: int
  max_score :: int
  play_field_rect :: pg_rect
  scale_y_play_field :: rat
  translation_y_play_field :: int
  round_start_time :: rat

text \<open>
  What one tick of \<^verbatim>\<open>start_pong_game\<close> reads from outside: the clock at the top of the
  tick, the two slots of \<^verbatim>\<open>findPosition\<close>, the two draws of
  \<^verbatim>\<open>random.choice([-7, 7])\<close> (as the index drawn) and the clock at a reset.
\<close>

record pong_input =
  current_time :: rat
  hands_data :: "hand_slot \<times> hand_slot"
  choice_x :: bool
  choice_y :: bool
  reset_time :: rat

definition random_choice_7 :: "bool \<Rightarrow> int" where
  "random_choice_7 second = (if second then 7 else - 7)"

definition speed_ramp :: "rat \<Rightarrow> pong_game \<Rightarrow> pong_game" where
  "speed_ramp now g =
     (if now - round_start_time g > speed_increment_interval then
        g\<lparr>ball_speed_x := ball_speed_x g +
              (if ball_speed_x g > 0 then speed_increment else - speed_increment),
          ball_speed_y := ball_speed_y g +
              (if ball_speed_y g > 0 then speed_increment else - speed_increment),
          round_start_time := now\<rparr>
      else g)"

definition clamp_paddle :: "pong_game \<Rightarrow> int \<Rightarrow> int" where
  "clamp_paddle g y =
     (if y < r_height (play_field_rect g) then r_height (play_field_rect g) + 10
      else if y > r_bottom (play_field_rect g) - 75
        then r_bottom (play_field_rect g) - paddle_height - 10 - 10
      else y)"

definition move_paddles :: "hand_slot \<times> hand_slot \<Rightarrow> pong_game \<Rightarrow> pong_game" where
  "move_paddles hdata g =
     (let g1 = (case fst hdata of
                  Found lmsList1 bbox1 center1 side1 \<Rightarrow>
                    if side1 = ''left'' \<and> length lmsList1 \<noteq> 0 then
                      g\<lparr>paddle1_y := clamp_paddle g
                          (py_int (of_int (snd center1) * scale_y_play_field g)
                             + translation_y_play_field g - paddle_height div 2)\<rparr>
                    else g
                | Nth \<Rightarrow> g)
      in (case snd hdata of
            Found lmsList2 bbox2 center2 side2 \<Rightarrow>
              if side2 = ''right'' \<and> length lmsList2 \<noteq> 0 then
                g1\<lparr>paddle2_y := clamp_paddle g1
                    (py_int (of_int (snd center2) * scale_y_play_field g1)
                       + translation_y_play_field g1 - paddle_height div 2)\<rparr>
              else g1
          | Nth \<Rightarrow> g1))"

definition move_ball :: "pong_game \<Rightarrow> pong_game" where
  "move_ball g = g\<lparr>ball_x := ball_x g + ball_speed_x g, ball_y := ball_y g + ball_speed_y g\<rparr>"

definition wall_bounce :: "pong_game \<Rightarrow> pong_game" where
  "wall_bounce g =
     (if ball_y g \<le> r_height (play_field_rect g) + ball_raduis
        then g\<lparr>ball_speed_y := - ball_speed_y g\<rparr>
      else if ball_y g \<ge> r_bottom (play_field_rect g) - ball_raduis
        then g\<lparr>ball_speed_y := - ball_speed_y g\<rparr>
      else g)"

definition paddle_bounce :: "pong_game \<Rightarrow> pong_game" where
  "paddle_bounce g =
     (let ball_rect = Rect (ball_x g) (ball_y g) ball_raduis ball_raduis;
          paddle_rect1 = Rect (paddle1_x g) (paddle1_y g) paddle_width paddle_height;
          paddle_rect2 = Rect (paddle2_x g) (paddle2_y g) paddle_width paddle_height
      in if colliderect paddle_rect1 ball_rect then
           g\<lparr>ball_speed_x := - ball_speed_x g,
             ball_x := paddle1_x g + paddle_width + ball_raduis\<rparr>
         else if colliderect paddle_rect2 ball_rect then
           g\<lparr>ball_speed_x := - ball_speed_x g,
             ball_x := paddle2_x g - ball_raduis\<rparr>
         else g)"

text \<open>The state the exit test of the tick sees: ramp, paddles, move, walls, paddles.\<close>

definition before_exit_test :: "pong_input \<Rightarrow> pong_game \<Rightarrow> pong_game" where
  "before_exit_test inp g =
     paddle_bounce (wall_bounce (move_ball (move_paddles (hands_data inp)
       (speed_ramp (current_time inp) g))))"

definition score_exit :: "pong_input \<Rightarrow> pong_game \<Rightarrow> pong_game" where
  "score_exit inp g =
     (if ball_x g \<le> r_left (play_field_rect g) + ball_raduis then
        g\<lparr>player2_score := player2_score g + 1,
          ball_x := r_centerx (play_field_rect g),
          ball_y := r_centery (play_field_rect g),
          ball_speed_x := random_choice_7 (choice_x inp),
          ball_speed_y := random_choice_7 (choice_y inp),
          round_start_time := reset_time inp\<rparr>
      else if ball_x g \<ge> r_right (play_field_rect g) - ball_raduis then
        g\<lparr>player1_score := player1_score g + 1,
          ball_x := r_centerx (play_field_rect g),
          ball_y := r_centery (play_field_rect g),
          ball_speed_x := random_choice_7 (choice_x inp),
          ball_speed_y := random_choice_7 (choice_y inp),
          round_start_time := reset_time inp\<rparr>
      else g)"

text \<open>
  \<^verbatim>\<open>end_pong_game\<close> names the winner and shows \<^verbatim>\<open>f"{winner} wins"\<close>.
\<close>

definition winner :: "pong_game \<Rightarrow> string" where
  "winner g = (if player1_score g = max_score g then ''Player 1'' else ''Player 2'')"

definition end_pong_game_text :: "pong_game \<Rightarrow> string" where
  "end_pong_game_text g = winner g @ '' wins''"

text \<open>
  One pass of the loop of \<^verbatim>\<open>start_pong_game\<close>: the new state, and the game-over screen's
  text when the tick calls \<^verbatim>\<open>end_pong_game\<close> (a score equals \<^verbatim>\<open>max_score\<close>).
\<close>

definition start_pong_game_tick :: "pong_input \<Rightarrow> pong_game \<Rightarrow> pong_game \<times> string option" where
  "start_pong_game_tick inp g =
     (let g' = score_exit inp (before_exit_test inp g)
      in if player1_score g' = max_score g' \<or> player2_score g' = max_score g'
         then (g', Some (end_pong_game_text g'))
         else (g', None))"

text \<open>
  The loop over a list of ticks, from Playing: it keeps every state it passes through
  and stops after the tick that ends the round.
\<close>

fun start_pong_game :: "pong_input list \<Rightarrow> pong_game \<Rightarrow> pong_game list" where
  "start_pong_game [] g = [g]"
| "start_pong_game (inp # rest) g =
     (case start_pong_game_tick inp g of
        (g', Some txt) \<Rightarrow> [g, g']
      | (g', None) \<Rightarrow> g # start_pong_game rest g')"

text \<open>
  The part of \<^verbatim>\<open>init_pong_game\<close> that sets the play state, for a given play field and
  mapping: ball at the centre, paddles 10 pixels inside the side edges, scores zero,
  \<^verbatim>\<open>max_score = 1\<close>.
\<close>

definition init_pong_game :: "pg_rect \<Rightarrow> rat \<Rightarrow> int \<Rightarrow> bool \<Rightarrow> bool \<Rightarrow> rat \<Rightarrow> pong_game" where
  "init_pong_game field sy ty cx cy now =
     \<lparr>ball_x = r_centerx field, ball_y = r_centery field,
      ball_speed_x = random_choice_7 cx, ball_speed_y = random_choice_7 cy,
      paddle1_x = r_left field + 10,
      paddle1_y = r_centery field - paddle_height div 2,
      paddle2_x = r_right field - paddle_width - 10,
      paddle2_y = r_centery field - paddle_height div 2,
      player1_score = 0, player2_score = 0, max_score = 1,
      play_field_rect = field, scale_y_play_field = sy, translation_y_play_field = ty,
      round_start_time = now\<rparr>"

section \<open>Runner engine (dino_game.py: Dino, run_dino_game)\<close>

datatype dino_image = Run_img nat | Jump_img | Duck_img nat

text \<open>
  The fields of \<^verbatim>\<open>Dino\<close> that \<^verbatim>\<open>update\<close> reads and writes; \<^verbatim>\<open>rect_y\<close> is
  \<^verbatim>\<open>self.rect.y\<close>. The hitbox is the rectangle of the current image.
\<close>

record dino =
  rect_y :: int
  pos_y_initial :: int
  gravity :: rat
  velocity_y :: rat
  jumping :: bool
  ducking :: bool
  run_index :: nat
  duck_index :: nat
  animation_timer :: nat
  dino_img :: dino_image

definition Dino_init :: "int \<Rightarrow> dino" where
  "Dino_init pos_y =
     \<lparr>rect_y = pos_y, pos_y_initial = pos_y, gravity = 6 / 10, velocity_y = 0,
      jumping = False, ducking = False, run_index = 0, duck_index = 0,
      animation_timer = 0, dino_img = Run_img 0\<rparr>"

text \<open>The first \<^verbatim>\<open>if\<close> of \<^verbatim>\<open>update\<close>: a jump starts only when none is under way.\<close>

definition jump_start :: "bool \<Rightarrow> dino \<Rightarrow> dino" where
  "jump_start jump_input d =
     (if jump_input \<and> \<not> jumping d then d\<lparr>jumping := True, velocity_y := - 15\<rparr> else d)"

text \<open>
  \<^verbatim>\<open>Dino.update\<close>. In flight the velocity grows by the gravity and
  \<^verbatim>\<open>self.rect.y += self.velocity_y\<close> stores the sum truncated to an integer (pygame
  converts the float as C does); at or below the baseline the dino lands.
\<close>

definition Dino_update :: "bool \<Rightarrow> bool \<Rightarrow> dino \<Rightarrow> dino" where
  "Dino_update jump_input duck_input d0 =
     (let d = jump_start jump_input d0
      in if jumping d then
           (let v = velocity_y d + gravity d;
                d1 = d\<lparr>velocity_y := v, rect_y := py_int (of_int (rect_y d) + v),
                       dino_img := Jump_img\<rparr>
            in if rect_y d1 \<ge> pos_y_initial d1
               then d1\<lparr>rect_y := pos_y_initial d1, jumping := False, velocity_y := 0\<rparr>
               else d1)
         else if duck_input then
           (let d1 = d\<lparr>ducking := True, animation_timer := animation_timer d + 1\<rparr>;
                d2 = (if animation_timer d1 \<ge> 10
                      then d1\<lparr>duck_index := (duck_index d1 + 1) mod 2,
                              dino_img := Duck_img ((duck_index d1 + 1) mod 2),
                              animation_timer := 0\<rparr>
                      else d1)
            in d2\<lparr>rect_y := pos_y_initial d2 + 30\<rparr>)
         else
           (let d1 = d\<lparr>ducking := False, animation_timer := animation_timer d + 1\<rparr>;
                d2 = (if animation_timer d1 \<ge> 10
                      then d1\<lparr>run_index := (run_index d1 + 1) mod 2,
                              dino_img := Run_img ((run_index d1 + 1) mod 2),
                              animation_timer := 0\<rparr>
                      else d1)
            in d2\<lparr>rect_y := pos_y_initial d2\<rparr>))"


text \<open>
  The variables of \<^verbatim>\<open>run_dino_game\<close> that the claims are about. What a tick reads from
  outside: the camera's jump and duck signals (\<^verbatim>\<open>get_state\<close>), the keys, and whether
  \<^verbatim>\<open>spritecollide\<close> found an obstacle on the dino (obstacles are spawned at random).
\<close>

record dino_game =
  the_dino :: dino
  game_speed :: rat
  game_over :: bool
  score :: rat

record dino_input =
  cam_jump :: bool
  cam_duck :: bool
  keyboard_jump :: bool
  keyboard_duck :: bool
  key_r :: bool
  collided :: bool

definition init_dino_game :: "int \<Rightarrow> dino_game" where
  "init_dino_game screen_height =
     \<lparr>the_dino = Dino_init (py_int (of_int screen_height * (75 / 100)) - 40),
      game_speed = 10, game_over = False, score = 0\<rparr>"

text \<open>The block under the comment "Speed up game as score increases".\<close>

definition speed_up :: "dino_game \<Rightarrow> dino_game" where
  "speed_up g =
     (if py_int (score g) mod 100 = 0 \<and> py_int (score g) > 0 then
        (let milestone_score = py_int (score g)
         in if milestone_score mod 100 = 0 \<and> game_speed g < 20
            then g\<lparr>game_speed := game_speed g + 1 / 2\<rparr>
            else g)
      else g)"

text \<open>
  One pass of the main loop without a quit event. In the game-over state only the R key
  acts (score 0, speed 10); otherwise the dino is updated, a collision sets
  \<^verbatim>\<open>game_over\<close>, the score grows by 0.1 and the speed block runs.
\<close>

definition run_dino_game_tick :: "dino_input \<Rightarrow> dino_game \<Rightarrow> dino_game" where
  "run_dino_game_tick inp g =
     (if game_over g then
        (if key_r inp then g\<lparr>game_over := False, score := 0, game_speed := 10\<rparr> else g)
      else
        (let g1 = g\<lparr>the_dino := Dino_update (cam_jump inp \<or> keyboard_jump inp)
                                  (cam_duck inp \<or> keyboard_duck inp) (the_dino g)\<rparr>;
             g2 = (if collided inp then g1\<lparr>game_over := True\<rparr> else g1);
             g3 = g2\<lparr>score := score g2 + 1 / 10\<rparr>
         in speed_up g3))"

fun run_dino_game :: "dino_input list \<Rightarrow> dino_game \<Rightarrow> dino_game list" where
  "run_dino_game [] g = [g]"
| "run_dino_game (inp # rest) g = g # run_dino_game rest (run_dino_game_tick inp g)"

section \<open>Capture worker (dino_game.py: PoseDetector)\<close>

text \<open>
  A frame is known by its size and a number. The camera handle \<^verbatim>\<open>self.cap\<close> is known by
  whether it is open: \<^verbatim>\<open>release()\<close> closes it, and a read on a closed handle fails.
\<close>

record frame =
  frame_height :: int
  frame_width :: int
  frame_no :: nat

record pose_detector =
  cap_opened :: bool
  camera_working :: bool
  running :: bool
  jump_detected :: bool
  duck_detected :: bool
  current_frame :: "frame option"
  lines_initialized :: bool
  jump_line_y :: int
  duck_line_y :: int
  consecutive_failures :: nat

text \<open>
  \<^verbatim>\<open>self.cap.read()\<close>: what the device would deliver, if the handle is open.
\<close>

definition cap_read :: "frame option \<Rightarrow> pose_detector \<Rightarrow> frame option" where
  "cap_read device d = (if cap_opened d then device else None)"

text \<open>
  \<^verbatim>\<open>__init__\<close>. \<^verbatim>\<open>existing_cap\<close> is the handle of the GUI, if any: whether it is open,
  and what its test read delivers. \<^verbatim>\<open>opens\<close> says, for the camera indices tried in
  turn when that handle does not work, whether each opens.
\<close>

definition PoseDetector_init :: "(bool \<times> frame option) option \<Rightarrow> bool \<Rightarrow> bool \<Rightarrow> bool \<Rightarrow> pose_detector" where
  "PoseDetector_init existing_cap open0 open1 open2 =
     (let blank = \<lparr>cap_opened = False, camera_working = False, running = True,
                    jump_detected = False, duck_detected = False, current_frame = None,
                    lines_initialized = False, jump_line_y = 0, duck_line_y = 0,
                    consecutive_failures = 0\<rparr>;
          from_gui = (case existing_cap of
                        None \<Rightarrow> None
                      | Some (is_opened, test_read) \<Rightarrow>
                          Some (blank\<lparr>cap_opened := is_opened,
                                   camera_working := (is_opened \<and> test_read \<noteq> None)\<rparr>))
      in case from_gui of
           Some d \<Rightarrow>
             if camera_working d then d
             else if open0 then d\<lparr>cap_opened := True, camera_working := True\<rparr>
             else if open1 then d\<lparr>cap_opened := True, camera_working := True\<rparr>
             else if open2 then d\<lparr>cap_opened := True, camera_working := True\<rparr>
             else d\<lparr>cap_opened := False, camera_working := False\<rparr>
         | None \<Rightarrow>
             if open0 then blank\<lparr>cap_opened := True, camera_working := True\<rparr>
             else if open1 then blank\<lparr>cap_opened := True, camera_working := True\<rparr>
             else if open2 then blank\<lparr>cap_opened := True, camera_working := True\<rparr>
             else blank)"

text \<open>
  What one pass of the worker's loop reads from outside: what the device delivers, the
  nose landmark of the pose (normalised), whether a reopening of the camera succeeds,
  and whether the key q was pressed.
\<close>

record worker_input =
  device_frame :: "frame option"
  nose :: "(rat \<times> rat) option"
  reopen_ok :: bool
  q_pressed :: bool

text \<open>
  One pass of the body of \<^verbatim>\<open>while self.running\<close> in \<^verbatim>\<open>detect_pose_continuous\<close>; the
  second component says that the pass left the loop by \<^verbatim>\<open>break\<close>.
\<close>

definition worker_pass :: "worker_input \<Rightarrow> pose_detector \<Rightarrow> pose_detector \<times> bool" where
  "worker_pass inp d =
     (if \<not> cap_opened d then
        (let d1 = d\<lparr>consecutive_failures := consecutive_failures d + 1\<rparr>;
             d2 = (if consecutive_failures d1 \<ge> 10 then
                     (if reopen_ok inp
                      then d1\<lparr>cap_opened := True, consecutive_failures := 0\<rparr>
                      else d1\<lparr>cap_opened := False\<rparr>)
                   else d1)
         in if consecutive_failures d2 \<ge> 20
            then (d2\<lparr>camera_working := False\<rparr>, True)
            else (d2, False))
      else
        (case cap_read (device_frame inp) d of
           None \<Rightarrow> (d\<lparr>consecutive_failures := consecutive_failures d + 1\<rparr>, False)
         | Some fr \<Rightarrow>
             (let d1 = d\<lparr>consecutive_failures := 0\<rparr>;
                  d2 = (if \<not> lines_initialized d1
                        then d1\<lparr>jump_line_y := py_int (of_int (frame_height fr) * (4 / 10)),
                                duck_line_y := py_int (of_int (frame_height fr) * (6 / 10)),
                                lines_initialized := True\<rparr>
                        else d1);
                  d3 = d2\<lparr>jump_detected := False, duck_detected := False\<rparr>;
                  d4 = (case nose inp of
                          None \<Rightarrow> d3
                        | Some n \<Rightarrow>
                            (let nose_y = py_int (snd n * of_int (frame_height fr))
                             in if nose_y < jump_line_y d3 then d3\<lparr>jump_detected := True\<rparr>
                                else if nose_y > duck_line_y d3 then d3\<lparr>duck_detected := True\<rparr>
                                else d3));
                  d5 = d4\<lparr>current_frame := Some fr\<rparr>
              in if q_pressed inp then (d5\<lparr>running := False\<rparr>, True) else (d5, False))))"

text \<open>
  Passes of the worker that run whatever \<^verbatim>\<open>running\<close> says: the worker tests the flag
  only at the top of a pass, so a pass under way when \<^verbatim>\<open>stop()\<close> returns still writes
  its results. Any number of them is allowed here.
\<close>

fun worker_passes :: "worker_input list \<Rightarrow> pose_detector \<Rightarrow> pose_detector" where
  "worker_passes [] d = d"
| "worker_passes (inp # rest) d = worker_passes rest (fst (worker_pass inp d))"

definition stop :: "pose_detector \<Rightarrow> pose_detector" where
  "stop d = d\<lparr>running := False, camera_working := False\<rparr>"

definition get_state :: "pose_detector \<Rightarrow> bool \<times> bool" where
  "get_state d =
     (if \<not> camera_working d then (False, False) else (jump_detected d, duck_detected d))"

definition get_camera_frame :: "frame option \<Rightarrow> pose_detector \<Rightarrow> frame option \<times> pose_detector" where
  "get_camera_frame device d =
     (if \<not> camera_working d then (None, d)
      else if current_frame d = None then
        (if cap_opened d then
           (case cap_read device d of
              Some fr \<Rightarrow> (Some fr, d\<lparr>current_frame := Some fr\<rparr>)
            | None \<Rightarrow> (None, d))
         else (None, d))
      else (current_frame d, d))"

text \<open>
  A state of play with the ball about to leave on the left: the state
  \<^verbatim>\<open>init_pong_game\<close> sets on a 600 by 400 play field at (100, 100), with the ball moved
  to (115, 150) and flying left and up; and a tick without hands.
\<close>

definition near_left_edge :: pong_game where
  "near_left_edge = (init_pong_game (Rect 100 100 600 400) (1 / 2) 100 False True 0)
      \<lparr>ball_x := 115, ball_y := 150, ball_speed_x := - 7, ball_speed_y := - 7\<rparr>"

definition idle_pong_input :: pong_input where
  "idle_pong_input = \<lparr>current_time = 1, hands_data = (Nth, Nth), choice_x = True,
      choice_y = False, reset_time = 1\<rparr>"

text \<open>
  A detector that was handed the camera of the GUI, open and delivering frames, as
  \<^verbatim>\<open>run_dino_game\<close> builds it.
\<close>

definition gui_frame :: frame where
  "gui_frame = \<lparr>frame_height = 480, frame_width = 640, frame_no = 7\<rparr>"

definition gui_detector :: pose_detector where
  "gui_detector = PoseDetector_init (Some (True, Some gui_frame)) False False False"

text \<open>
  States and inputs to run a tick on. \<^verbatim>\<open>playing wave sc\<close> is the state of
  \<^verbatim>\<open>init_balloons_game\<close> on a 1920 by 1080 screen with a background image of that size
  (scale 1, camera overlay from (574, 372) to (1346, 808)), the given first wave and
  the given score. \<^verbatim>\<open>finger_at x y\<close> is one hand with only the index finger extended,
  its tip at \<^verbatim>\<open>(x, y)\<close> of the camera image. The two waves of three balloons are stored
  out of order of appearance, as \<^verbatim>\<open>init_balloons\<close> draws the times at random.
\<close>

definition finger_at :: "int \<Rightarrow> int \<Rightarrow> (int \<times> int) list option" where
  "finger_at x y = Some [(-1, -1), (x, y), (-1, -1), (-1, -1), (-1, -1)]"

definition playing :: "balloon list \<Rightarrow> int \<Rightarrow> balloons_game" where
  "playing wave sc =
     (init_balloons_game 1920 1080 1920 1080 (wave # later_waves))\<lparr>balloons_score := sc\<rparr>"

definition three_balloons :: "balloon list" where
  "three_balloons =
     [new_balloon 900 600 12 2 True 2, new_balloon 1100 908 4 9 False 0,
      new_balloon 700 700 5 1 False 0]"


text \<open>
  The camera image that \<^verbatim>\<open>start_pong_game\<close> hands to \<^verbatim>\<open>findPosition\<close> is resized to
  \<^verbatim>\<open>(int(user_screen_width // 3.5), int(user_screen_height // 3.5))\<close>, and its width
  \<^verbatim>\<open>shape[1]\<close> is the \<^verbatim>\<open>size_frame\<close> argument. A hand all of whose landmarks sit at the
  middle of the image, for a frame to try the boundary on.
\<close>

definition pong_screen_ratio :: rat where
  "pong_screen_ratio = 7 / 2"

definition pong_camera_size :: "int \<Rightarrow> int \<Rightarrow> int \<times> int" where
  "pong_camera_size w h =
     (py_int (of_int \<lfloor>of_int w / pong_screen_ratio\<rfloor>),
      py_int (of_int \<lfloor>of_int h / pong_screen_ratio\<rfloor>))"

definition centred_hand :: "(rat \<times> rat) list" where
  "centred_hand = [(1 / 2, 1 / 2)]"



section \<open>Properties of the balloon engine\<close>

lemma pop_by_fingers_nonneg: "0 \<le> sc \<Longrightarrow> 0 \<le> snd (pop_by_fingers fingers b sc)"
  by (induction fingers) auto

lemma balloons_loop_nonneg:
  "0 \<le> sc \<Longrightarrow> 0 \<le> snd (balloons_loop elapsed_time sy fingers bs sc)"
proof (induction bs arbitrary: sc)
  case Nil
  then show ?case by simp
next
  case (Cons b bs)
  then show ?case
    by (simp add: Let_def pop_by_fingers_nonneg)
qed

text \<open>
  As long as no balloon of a prefix makes the loop break, the loop over a list is the
  loop over the prefix followed by the loop over the rest, the score handed on.
\<close>

lemma balloons_loop_append:
  "list_all (\<lambda>p. \<not> leaves_loop elapsed_time sy p) pre \<Longrightarrow>
   balloons_loop elapsed_time sy fingers (pre @ rest) sc =
     (fst (balloons_loop elapsed_time sy fingers pre sc)
        @ fst (balloons_loop elapsed_time sy fingers rest
                 (snd (balloons_loop elapsed_time sy fingers pre sc))),
      snd (balloons_loop elapsed_time sy fingers rest
             (snd (balloons_loop elapsed_time sy fingers pre sc))))"
proof (induction pre arbitrary: sc)
  case Nil
  then show ?case by simp
next
  case (Cons p pre)
  then show ?case
    by (auto simp: Let_def leaves_loop_def in_play_def at_top_def)
qed

lemma pop_by_fingers_hit:
  "list_ex (colliderect (balloon_rect b)) fingers \<Longrightarrow>
   pop_by_fingers fingers b sc =
     (b\<lparr>is_popped := True\<rparr>,
      (if balloon_type b = 1 then max 0 (sc + 2)
       else if balloon_type b = 2 then max 0 (sc + 3)
       else if balloon_type b = 3 then max 0 (sc + 5)
       else max 0 (sc + 1)))"
  by (induction fingers) auto

text \<open>
  What a tick does to the wave and the score, when the game is on and the wave exists:
  the wave's list becomes the scanned sorted list, the score the scan's score.
\<close>

lemma py_position_less: "py_position n i = Some k \<Longrightarrow> k < n"
  by (auto simp add: py_position_def split: if_splits)


lemma start_balloons_game_tick_scan:
  assumes "\<not> balloons_game_over g"
    and "py_position (length (waves_balloons g)) (balloons_wave g - 1) = Some k"
    and "0 \<le> balloons_score g"
  shows "\<exists>g'. start_balloons_game_tick elapsed_time right_hand left_hand g = Inr g'
     \<and> waves_balloons g' ! k =
         fst (balloons_loop elapsed_time (start_y_cam g)
               (fingers_centers_rects g right_hand left_hand)
               (sort_key balloon_time (waves_balloons g ! k)) (balloons_score g))
     \<and> balloons_score g' =
         snd (balloons_loop elapsed_time (start_y_cam g)
               (fingers_centers_rects g right_hand left_hand)
               (sort_key balloon_time (waves_balloons g ! k)) (balloons_score g))"
proof -
  let ?res = "balloons_loop elapsed_time (start_y_cam g)
               (fingers_centers_rects g right_hand left_hand)
               (sort_key balloon_time (waves_balloons g ! k)) (balloons_score g)"
  have k: "k < length (waves_balloons g)" using assms(2) by (rule py_position_less)
  have n: "0 \<le> snd ?res" using assms(3) by (rule balloons_loop_nonneg)
  show ?thesis
    using assms(1,2) k n
    by (simp add: start_balloons_game_tick_def Let_def start_balloons_game_timer_def max_def)
qed


text \<open>
  C4, as stated, fails: the top-line test comes before the fingertip test and ends the
  scan. A plain balloon at the top line under a fingertip is marked popped and costs a
  point (3 to 2) instead of giving one; and a tier-2 balloon under a fingertip that
  stands behind a top-line balloon in the order of appearance is not moved, not popped
  and not scored in that tick (the score stays 4).
\<close>

theorem fingertip_on_top_line_or_behind_it_scores_nothing:
  "list_ex (colliderect (balloon_rect (new_balloon 900 472 6 1 False 0)))
      (fingers_centers_rects (playing [new_balloon 900 472 6 1 False 0] 3) (finger_at 376 108) None)
   \<and> (case start_balloons_game_tick 5 (finger_at 376 108) None
              (playing [new_balloon 900 472 6 1 False 0] 3) of
         Inl e \<Rightarrow> False
       | Inr g \<Rightarrow> balloons_score g = 2 \<and> map is_popped (waves_balloons g ! 0) = [True])
   \<and> list_ex (colliderect (balloon_rect (new_balloon 900 600 12 2 True 2)))
      (fingers_centers_rects
         (playing [new_balloon 700 472 6 1 True 1, new_balloon 900 600 12 2 True 2] 4)
         (finger_at 376 228) None)
   \<and> (case start_balloons_game_tick 5 (finger_at 376 228) None
              (playing [new_balloon 700 472 6 1 True 1, new_balloon 900 600 12 2 True 2] 4) of
         Inl e \<Rightarrow> False
       | Inr g \<Rightarrow> balloons_score g = 4
           \<and> map is_popped (waves_balloons g ! 0) = [True, False]
           \<and> map balloon_rect (waves_balloons g ! 0) = [Rect 700 472 100 100, Rect 900 600 100 100])"
  by code_simp

text \<open>
  C4, amended. In a tick of a running game, take the wave in order of appearance. A
  balloon in play (its time has come, not popped) below the top line, with no balloon in
  play at the top line before it, and whose rectangle after its move up in this tick
  overlaps a fingertip rectangle, is moved, marked popped, and adds to the score the
  scan has reached 2, 3 or 5 for the types 1, 2, 3 and 1 for any other type. The tick
  then goes on with the balloons after it.
\<close>

theorem reached_finger_pop_scores_by_type:
  assumes "\<not> balloons_game_over g"
    and "py_position (length (waves_balloons g)) (balloons_wave g - 1) = Some k"
    and "0 \<le> balloons_score g"
    and "sort_key balloon_time (waves_balloons g ! k) = pre @ b # post"
    and "list_all (\<lambda>p. \<not> leaves_loop elapsed_time (start_y_cam g) p) pre"
    and "in_play elapsed_time b" and "\<not> at_top (start_y_cam g) b"
    and "list_ex (colliderect (move_ip (balloon_rect b) 0 (- balloon_speed b)))
           (fingers_centers_rects g right_hand left_hand)"
  shows "\<exists>g'. start_balloons_game_tick elapsed_time right_hand left_hand g = Inr g'
     \<and> (let fingers = fingers_centers_rects g right_hand left_hand;
             before = balloons_loop elapsed_time (start_y_cam g) fingers pre (balloons_score g);
             s2 = (if balloon_type b = 1 then snd before + 2
                   else if balloon_type b = 2 then snd before + 3
                   else if balloon_type b = 3 then snd before + 5
                   else snd before + 1);
             after = balloons_loop elapsed_time (start_y_cam g) fingers post s2
         in waves_balloons g' ! k =
              fst before
              @ b\<lparr>balloon_rect := move_ip (balloon_rect b) 0 (- balloon_speed b),
                   is_popped := True\<rparr>
              # fst after
            \<and> balloons_score g' = snd after)"
proof -
  let ?f = "fingers_centers_rects g right_hand left_hand"
  let ?sy = "start_y_cam g"
  let ?m = "b\<lparr>balloon_rect := move_ip (balloon_rect b) 0 (- balloon_speed b)\<rparr>"
  have s1: "0 \<le> snd (balloons_loop elapsed_time ?sy ?f pre (balloons_score g))"
    using assms(3) by (rule balloons_loop_nonneg)
  have hit: "list_ex (colliderect (balloon_rect ?m)) ?f"
    using assms(8) by simp
  have one: "balloons_loop elapsed_time ?sy ?f (b # post) s =
      (?m\<lparr>is_popped := True\<rparr>
         # fst (balloons_loop elapsed_time ?sy ?f post
                 (if balloon_type b = 1 then max 0 (s + 2)
                  else if balloon_type b = 2 then max 0 (s + 3)
                  else if balloon_type b = 3 then max 0 (s + 5)
                  else max 0 (s + 1))),
       snd (balloons_loop elapsed_time ?sy ?f post
                 (if balloon_type b = 1 then max 0 (s + 2)
                  else if balloon_type b = 2 then max 0 (s + 3)
                  else if balloon_type b = 3 then max 0 (s + 5)
                  else max 0 (s + 1))))" for s
    using assms(6,7) by (simp add: Let_def pop_by_fingers_hit[OF hit] in_play_def at_top_def)
  have scan: "balloons_loop elapsed_time ?sy ?f (pre @ b # post) (balloons_score g) =
     (let before = balloons_loop elapsed_time ?sy ?f pre (balloons_score g);
          s2 = (if balloon_type b = 1 then snd before + 2
                else if balloon_type b = 2 then snd before + 3
                else if balloon_type b = 3 then snd before + 5
                else snd before + 1);
          after = balloons_loop elapsed_time ?sy ?f post s2
      in (fst before @ ?m\<lparr>is_popped := True\<rparr> # fst after, snd after))"
    using s1
    by (simp add: balloons_loop_append[OF assms(5)] one Let_def max_def del: balloons_loop.simps)
  from start_balloons_game_tick_scan [OF assms(1-3), of elapsed_time right_hand left_hand]
  obtain g' where g': "start_balloons_game_tick elapsed_time right_hand left_hand g = Inr g'"
    "waves_balloons g' ! k = fst (balloons_loop elapsed_time ?sy ?f
        (sort_key balloon_time (waves_balloons g ! k)) (balloons_score g))"
    "balloons_score g' = snd (balloons_loop elapsed_time ?sy ?f
        (sort_key balloon_time (waves_balloons g ! k)) (balloons_score g))"
    by blast
  show ?thesis
    using g' by (simp add: assms(4) scan Let_def)
qed

text \<open>
  The theorem at work: a wave of three balloons stored out of order; at second 5 the
  first in order moves up, the tier-2 balloon under the fingertip is popped and the
  score goes from 4 to 7, the third has not appeared yet.
\<close>

theorem reached_finger_pop_scores_by_type_witness:
  "\<not> balloons_game_over (playing three_balloons 4)
   \<and> py_position (length (waves_balloons (playing three_balloons 4)))
         (balloons_wave (playing three_balloons 4) - 1) = Some 0
   \<and> 0 \<le> balloons_score (playing three_balloons 4)
   \<and> sort_key balloon_time (waves_balloons (playing three_balloons 4) ! 0) =
         [new_balloon 700 700 5 1 False 0] @ new_balloon 900 600 12 2 True 2
           # [new_balloon 1100 908 4 9 False 0]
   \<and> list_all (\<lambda>p. \<not> leaves_loop 5 (start_y_cam (playing three_balloons 4)) p)
         [new_balloon 700 700 5 1 False 0]
   \<and> in_play 5 (new_balloon 900 600 12 2 True 2)
   \<and> \<not> at_top (start_y_cam (playing three_balloons 4)) (new_balloon 900 600 12 2 True 2)
   \<and> list_ex (colliderect (move_ip (balloon_rect (new_balloon 900 600 12 2 True 2)) 0
         (- balloon_speed (new_balloon 900 600 12 2 True 2))))
         (fingers_centers_rects (playing three_balloons 4) (finger_at 376 228) None)
   \<and> (\<exists>g'. start_balloons_game_tick 5 (finger_at 376 228) None (playing three_balloons 4)
             = Inr g'
          \<and> balloons_score g' = 7
          \<and> waves_balloons g' ! 0 =
              [new_balloon 700 695 5 1 False 0,
               (new_balloon 900 588 12 2 True 2)\<lparr>is_popped := True\<rparr>,
               new_balloon 1100 908 4 9 False 0])"
proof -
  let ?g = "playing three_balloons 4"
  have h1: "\<not> balloons_game_over ?g" by code_simp
  have h2: "py_position (length (waves_balloons ?g)) (balloons_wave ?g - 1) = Some 0"
    by code_simp
  have h3: "0 \<le> balloons_score ?g" by code_simp
  have h4: "sort_key balloon_time (waves_balloons ?g ! 0) =
         [new_balloon 700 700 5 1 False 0] @ new_balloon 900 600 12 2 True 2
           # [new_balloon 1100 908 4 9 False 0]" by code_simp
  have h5: "list_all (\<lambda>p. \<not> leaves_loop 5 (start_y_cam ?g) p)
         [new_balloon 700 700 5 1 False 0]" by code_simp
  have h6: "in_play 5 (new_balloon 900 600 12 2 True 2)" by code_simp
  have h7: "\<not> at_top (start_y_cam ?g) (new_balloon 900 600 12 2 True 2)" by code_simp
  have h8: "list_ex (colliderect (move_ip (balloon_rect (new_balloon 900 600 12 2 True 2)) 0
         (- balloon_speed (new_balloon 900 600 12 2 True 2))))
         (fingers_centers_rects ?g (finger_at 376 228) None)" by code_simp
  have e: "start_y_cam ?g = 372" "balloons_score ?g = 4"
    "fingers_centers_rects ?g (finger_at 376 228) None = [Rect 950 600 20 20]"
    by code_simp+
  from reached_finger_pop_scores_by_type [OF h1 h2 h3 h4 h5 h6 h7 h8]
  have "\<exists>g'. start_balloons_game_tick 5 (finger_at 376 228) None ?g = Inr g'
          \<and> balloons_score g' = 7
          \<and> waves_balloons g' ! 0 =
              [new_balloon 700 695 5 1 False 0,
               (new_balloon 900 588 12 2 True 2)\<lparr>is_popped := True\<rparr>,
               new_balloon 1100 908 4 9 False 0]"
    by (auto simp add: e Let_def new_balloon_def Rect_def colliderect_def move_ip_def)
  with h1 h2 h3 h4 h5 h6 h7 h8 show ?thesis by blast
qed




text \<open>
  C3. The test that ends a wave is \<^verbatim>\<open>len(balloons) == 0 or elapsed_time > max_wave_time\<close>,
  and no balloon is ever taken out of the list: a popped balloon stays in it. So a first
  wave whose five balloons are all popped goes on at second 10 (wave 1, no game over),
  and ends only once the elapsed whole seconds exceed 20.
\<close>

theorem wave_goes_on_with_all_balloons_popped:
  "(case start_balloons_game_tick 10 None None
           (init_balloons_game 1920 1080 1920 1080 (popped_wave # later_waves)) of
      Inl e \<Rightarrow> False
    | Inr g \<Rightarrow> balloons_wave g = 1 \<and> list_all is_popped (waves_balloons g ! 0))
   \<and> (case start_balloons_game_tick 21 None None
           (init_balloons_game 1920 1080 1920 1080 (popped_wave # later_waves)) of
      Inl e \<Rightarrow> False
    | Inr g \<Rightarrow> balloons_wave g = 2)"
  by code_simp

section \<open>Properties of the Pong engine\<close>

text \<open>Nothing before the exit test of a tick touches the scores or the play field.\<close>

lemma speed_ramp_keeps:
  "player1_score (speed_ramp t g) = player1_score g"
  "player2_score (speed_ramp t g) = player2_score g"
  "max_score (speed_ramp t g) = max_score g"
  "play_field_rect (speed_ramp t g) = play_field_rect g"
  by (simp_all add: speed_ramp_def)

lemma move_paddles_keeps:
  "player1_score (move_paddles hdata g) = player1_score g"
  "player2_score (move_paddles hdata g) = player2_score g"
  "max_score (move_paddles hdata g) = max_score g"
  "play_field_rect (move_paddles hdata g) = play_field_rect g"
  by (cases "fst hdata"; cases "snd hdata"; simp add: move_paddles_def Let_def)+

lemma move_ball_keeps:
  "player1_score (move_ball g) = player1_score g"
  "player2_score (move_ball g) = player2_score g"
  "max_score (move_ball g) = max_score g"
  "play_field_rect (move_ball g) = play_field_rect g"
  by (simp_all add: move_ball_def)

lemma wall_bounce_keeps:
  "player1_score (wall_bounce g) = player1_score g"
  "player2_score (wall_bounce g) = player2_score g"
  "max_score (wall_bounce g) = max_score g"
  "play_field_rect (wall_bounce g) = play_field_rect g"
  by (simp_all add: wall_bounce_def)

lemma paddle_bounce_keeps:
  "player1_score (paddle_bounce g) = player1_score g"
  "player2_score (paddle_bounce g) = player2_score g"
  "max_score (paddle_bounce g) = max_score g"
  "play_field_rect (paddle_bounce g) = play_field_rect g"
  by (simp_all add: paddle_bounce_def Let_def)

lemma before_exit_test_keeps:
  "player1_score (before_exit_test inp g) = player1_score g"
  "player2_score (before_exit_test inp g) = player2_score g"
  "max_score (before_exit_test inp g) = max_score g"
  "play_field_rect (before_exit_test inp g) = play_field_rect g"
  by (simp_all add: before_exit_test_def paddle_bounce_keeps wall_bounce_keeps
      move_ball_keeps move_paddles_keeps speed_ramp_keeps)

text \<open>
  C2. With \<^verbatim>\<open>max_score = 1\<close> and both scores still 0 (as they are in every tick of such
  a game that is still played), a tick in which the ball, after its move and the wall
  and paddle tests, is at or past the left edge (\<^verbatim>\<open>ball_x <= left + ball_raduis\<close>) gives
  player 2 the score 1, puts the ball on the centre of the play field with both speed
  components drawn from -7 and 7, and ends the round: the tick calls
  \<^verbatim>\<open>end_pong_game\<close>, whose screen says "Player 2 wins", and the loop stops.
\<close>

theorem pong_left_exit_ends_round:
  assumes "max_score g = 1" and "player1_score g = 0" and "player2_score g = 0"
    and "ball_x (before_exit_test inp g) \<le> r_left (play_field_rect g) + ball_raduis"
  shows "player2_score (fst (start_pong_game_tick inp g)) = 1
    \<and> player1_score (fst (start_pong_game_tick inp g)) = 0
    \<and> ball_x (fst (start_pong_game_tick inp g)) = r_centerx (play_field_rect g)
    \<and> ball_y (fst (start_pong_game_tick inp g)) = r_centery (play_field_rect g)
    \<and> ball_speed_x (fst (start_pong_game_tick inp g)) \<in> {- 7, 7}
    \<and> ball_speed_y (fst (start_pong_game_tick inp g)) \<in> {- 7, 7}
    \<and> snd (start_pong_game_tick inp g) = Some ''Player 2 wins''
    \<and> start_pong_game (inp # rest) g = [g, fst (start_pong_game_tick inp g)]"
proof -
  let ?b = "before_exit_test inp g"
  have ex: "score_exit inp ?b =
      ?b\<lparr>player2_score := player2_score ?b + 1,
          ball_x := r_centerx (play_field_rect ?b),
          ball_y := r_centery (play_field_rect ?b),
          ball_speed_x := random_choice_7 (choice_x inp),
          ball_speed_y := random_choice_7 (choice_y inp),
          round_start_time := reset_time inp\<rparr>"
    using assms(4) by (simp add: score_exit_def before_exit_test_keeps)
  have tick: "start_pong_game_tick inp g = (score_exit inp ?b, Some ''Player 2 wins'')"
    using assms(1-3)
    by (simp add: start_pong_game_tick_def Let_def ex before_exit_test_keeps
        end_pong_game_text_def winner_def)
  show ?thesis
    using assms(1-3)
    by (simp add: tick ex before_exit_test_keeps random_choice_7_def)
qed

lemma near_left_edge_exits: "ball_x (before_exit_test idle_pong_input near_left_edge)
      \<le> r_left (play_field_rect near_left_edge) + ball_raduis"
  by (simp add: near_left_edge_def idle_pong_input_def init_pong_game_def before_exit_test_def
    paddle_bounce_def wall_bounce_def move_ball_def move_paddles_def speed_ramp_def Let_def
    Rect_def colliderect_def ball_raduis_def paddle_width_def paddle_height_def
    speed_increment_interval_def r_centerx_def r_centery_def r_right_def r_bottom_def random_choice_7_def)

theorem pong_left_exit_ends_round_witness:
  "max_score near_left_edge = 1 \<and> player1_score near_left_edge = 0
   \<and> player2_score near_left_edge = 0
   \<and> ball_x (before_exit_test idle_pong_input near_left_edge)
        \<le> r_left (play_field_rect near_left_edge) + ball_raduis
   \<and> player2_score (fst (start_pong_game_tick idle_pong_input near_left_edge)) = 1
   \<and> ball_x (fst (start_pong_game_tick idle_pong_input near_left_edge)) = 400
   \<and> ball_y (fst (start_pong_game_tick idle_pong_input near_left_edge)) = 300
   \<and> snd (start_pong_game_tick idle_pong_input near_left_edge) = Some ''Player 2 wins''"
proof -
  have h: "max_score near_left_edge = 1" "player1_score near_left_edge = 0"
    "player2_score near_left_edge = 0"
    by (simp_all add: near_left_edge_def init_pong_game_def)
  have f: "r_centerx (play_field_rect near_left_edge) = 400"
    "r_centery (play_field_rect near_left_edge) = 300"
    by (simp_all add: near_left_edge_def init_pong_game_def Rect_def r_centerx_def r_centery_def)
  note t = pong_left_exit_ends_round [OF h near_left_edge_exits, of "[]", unfolded f]
  show ?thesis
    apply (insert t h near_left_edge_exits)
    apply (elim conjE)
    apply (intro conjI)
    apply assumption+
    done
qed

section \<open>The score invariant of the three engines\<close>

text \<open>
  Every write to a score is either an increment of a score that is not negative, or
  goes through \<^verbatim>\<open>max(0, ...)\<close>; so each tick keeps the scores at or above zero.
\<close>

lemma start_balloons_game_timer_nonneg:
  "0 \<le> balloons_score (start_balloons_game_timer g)
     \<longleftrightarrow> 0 \<le> balloons_score g \<or> balloons_wave g > max_balloons_waves g"
  by (simp add: start_balloons_game_timer_def)

lemma start_balloons_game_tick_nonneg:
  assumes "0 \<le> balloons_score g"
    and "start_balloons_game_tick elapsed_time right_hand left_hand g = Inr g'"
  shows "0 \<le> balloons_score g'"
proof (cases "balloons_game_over g")
  case True
  with assms show ?thesis by (simp add: start_balloons_game_tick_def)
next
  case False
  show ?thesis
  proof (cases "py_position (length (waves_balloons g)) (balloons_wave g - 1)")
    case None
    with False assms(2) show ?thesis by (simp add: start_balloons_game_tick_def)
  next
    case (Some k)
    let ?res = "balloons_loop elapsed_time (start_y_cam g)
        (fingers_centers_rects g right_hand left_hand)
        (sort_key balloon_time (waves_balloons g ! k)) (balloons_score g)"
    have "0 \<le> snd ?res" using assms(1) by (rule balloons_loop_nonneg)
    with False Some assms(2) show ?thesis
      by (auto simp add: start_balloons_game_tick_def Let_def start_balloons_game_timer_def
          split: if_splits)
  qed
qed

lemma start_balloons_game_nonneg:
  "0 \<le> balloons_score g \<Longrightarrow> list_all (\<lambda>s. 0 \<le> balloons_score s) (start_balloons_game ticks g)"
proof (induction ticks arbitrary: g)
  case Nil
  then show ?case by simp
next
  case (Cons t ticks)
  obtain e r l where t: "t = (e, r, l)" by (cases t)
  show ?case
  proof (cases "start_balloons_game_tick e r l g")
    case (Inl err)
    with Cons.prems t show ?thesis by simp
  next
    case (Inr g')
    with Cons.prems have "0 \<le> balloons_score g'" by (rule start_balloons_game_tick_nonneg)
    with Cons.IH Cons.prems Inr t show ?thesis by simp
  qed
qed

lemma score_exit_nonneg:
  "0 \<le> player1_score g \<Longrightarrow> 0 \<le> player2_score g \<Longrightarrow>
   0 \<le> player1_score (score_exit inp g) \<and> 0 \<le> player2_score (score_exit inp g)"
  by (simp add: score_exit_def)

lemma start_pong_game_tick_nonneg:
  assumes "0 \<le> player1_score g" and "0 \<le> player2_score g"
  shows "0 \<le> player1_score (fst (start_pong_game_tick inp g))
       \<and> 0 \<le> player2_score (fst (start_pong_game_tick inp g))"
proof -
  have "0 \<le> player1_score (before_exit_test inp g)" "0 \<le> player2_score (before_exit_test inp g)"
    using assms by (simp_all add: before_exit_test_keeps)
  then have "0 \<le> player1_score (score_exit inp (before_exit_test inp g))
       \<and> 0 \<le> player2_score (score_exit inp (before_exit_test inp g))"
    by (rule score_exit_nonneg)
  then show ?thesis by (simp add: start_pong_game_tick_def Let_def)
qed

lemma start_pong_game_nonneg:
  "0 \<le> player1_score g \<Longrightarrow> 0 \<le> player2_score g \<Longrightarrow>
   list_all (\<lambda>s. 0 \<le> player1_score s \<and> 0 \<le> player2_score s) (start_pong_game inputs g)"
proof (induction inputs arbitrary: g)
  case Nil
  then show ?case by simp
next
  case (Cons inp inputs)
  obtain g' msg where t: "start_pong_game_tick inp g = (g', msg)" by (cases "start_pong_game_tick inp g")
  from start_pong_game_tick_nonneg [OF Cons.prems, of inp] t
  have n: "0 \<le> player1_score g'" "0 \<le> player2_score g'" by simp_all
  show ?case
  proof (cases msg)
    case None
    with Cons.IH [OF n] Cons.prems t show ?thesis by simp
  next
    case (Some a)
    with n Cons.prems t show ?thesis by simp
  qed
qed

lemma speed_up_score: "score (speed_up g) = score g"
  by (simp add: speed_up_def Let_def)

lemma run_dino_game_tick_nonneg:
  "0 \<le> score g \<Longrightarrow> 0 \<le> score (run_dino_game_tick inp g)"
  by (simp add: run_dino_game_tick_def Let_def speed_up_score)

lemma run_dino_game_nonneg:
  "0 \<le> score g \<Longrightarrow> list_all (\<lambda>s. 0 \<le> score s) (run_dino_game keys g)"
proof (induction keys arbitrary: g)
  case Nil
  then show ?case by simp
next
  case (Cons inp keys)
  from Cons.prems have "0 \<le> score (run_dino_game_tick inp g)" by (rule run_dino_game_tick_nonneg)
  with Cons.IH Cons.prems show ?case by simp
qed

text \<open>
  C1. From the states the three games start in, and for every sequence of ticks and
  every input of each tick, no state that a loop passes through has a negative score:
  the balloon score (pops, misses floored at zero), the two Pong scores (goals) and
  the runner's score (0.1 per tick).
\<close>

theorem scores_never_negative:
  "list_all (\<lambda>s. 0 \<le> balloons_score s)
     (start_balloons_game ticks (init_balloons_game screen_w screen_h bg_width bg_height waves))
   \<and> list_all (\<lambda>s. 0 \<le> player1_score s \<and> 0 \<le> player2_score s)
     (start_pong_game inputs (init_pong_game field sy ty cx cy now))
   \<and> list_all (\<lambda>s. 0 \<le> score s) (run_dino_game keys (init_dino_game screen_height))"
proof (intro conjI)
  show "list_all (\<lambda>s. 0 \<le> balloons_score s)
     (start_balloons_game ticks (init_balloons_game screen_w screen_h bg_width bg_height waves))"
    by (rule start_balloons_game_nonneg) (simp add: init_balloons_game_def Let_def)
  show "list_all (\<lambda>s. 0 \<le> player1_score s \<and> 0 \<le> player2_score s)
     (start_pong_game inputs (init_pong_game field sy ty cx cy now))"
    by (rule start_pong_game_nonneg) (simp_all add: init_pong_game_def)
  show "list_all (\<lambda>s. 0 \<le> score s) (run_dino_game keys (init_dino_game screen_height))"
    by (rule run_dino_game_nonneg) (simp add: init_dino_game_def)
qed

section \<open>Properties of the capture worker\<close>

text \<open>
  No pass of the worker sets \<^verbatim>\<open>camera_working\<close>; only \<^verbatim>\<open>__init__\<close> does.
\<close>

lemma worker_pass_camera_working:
  "camera_working (fst (worker_pass inp d)) \<Longrightarrow> camera_working d"
  by (simp add: worker_pass_def Let_def split: if_splits option.splits)

lemma worker_passes_camera_working:
  "camera_working (worker_passes passes d) \<Longrightarrow> camera_working d"
proof (induction passes arbitrary: d)
  case Nil
  then show ?case by simp
next
  case (Cons inp passes)
  from Cons.prems have "camera_working (worker_passes passes (fst (worker_pass inp d)))" by simp
  then have "camera_working (fst (worker_pass inp d))" by (rule Cons.IH)
  then show ?case by (rule worker_pass_camera_working)
qed

lemma stop_not_working: "\<not> camera_working (worker_passes passes (stop d))"
proof
  assume "camera_working (worker_passes passes (stop d))"
  then have "camera_working (stop d)" by (rule worker_passes_camera_working)
  then show False by (simp add: stop_def)
qed

text \<open>
  C7, as stated, fails: \<^verbatim>\<open>stop()\<close> never calls \<^verbatim>\<open>self.cap.release()\<close>. After it, the
  handle of a detector built on the GUI's camera is still open and a read on it still
  delivers the device's frame.
\<close>

theorem stop_leaves_camera_open:
  "cap_opened (stop gui_detector)
   \<and> cap_read (Some gui_frame) (stop gui_detector) = Some gui_frame"
  by (simp add: stop_def gui_detector_def PoseDetector_init_def cap_read_def Let_def)

text \<open>
  C7, amended. After \<^verbatim>\<open>stop()\<close> the loop flag is off, and whatever passes the worker
  still makes, the game loop gets nothing more from the detector: \<^verbatim>\<open>get_state()\<close> is
  \<^verbatim>\<open>(False, False)\<close> and \<^verbatim>\<open>get_camera_frame()\<close> is \<^verbatim>\<open>None\<close>. \<^verbatim>\<open>stop()\<close> does not
  release the camera: for a detector that was handed the open, working camera of the
  GUI, the handle is still open after \<^verbatim>\<open>stop()\<close> and a read on it delivers what the
  device delivers.
\<close>

theorem after_stop_nothing_is_published:
  "\<not> running (stop d)
   \<and> get_state (worker_passes passes (stop d)) = (False, False)
   \<and> fst (get_camera_frame device (worker_passes passes (stop d))) = None
   \<and> cap_opened (stop (PoseDetector_init (Some (True, Some fr)) open0 open1 open2))
   \<and> cap_read device (stop (PoseDetector_init (Some (True, Some fr)) open0 open1 open2))
       = device"
proof (intro conjI)
  show "\<not> running (stop d)" by (simp add: stop_def)
  show "get_state (worker_passes passes (stop d)) = (False, False)"
    by (simp add: get_state_def stop_not_working)
  show "fst (get_camera_frame device (worker_passes passes (stop d))) = None"
    by (simp add: get_camera_frame_def stop_not_working)
  show "cap_opened (stop (PoseDetector_init (Some (True, Some fr)) open0 open1 open2))"
    by (simp add: stop_def PoseDetector_init_def Let_def)
  then show "cap_read device (stop (PoseDetector_init (Some (True, Some fr)) open0 open1 open2))
       = device"
    by (simp add: cap_read_def)
qed

section \<open>Properties of the hand-position provider\<close>

text \<open>
  Only the paddle block of a tick writes the paddle positions, and without a hand in
  either slot it writes nothing.
\<close>

lemma speed_ramp_paddles:
  "paddle1_y (speed_ramp now g) = paddle1_y g" "paddle2_y (speed_ramp now g) = paddle2_y g"
  by (simp_all add: speed_ramp_def)

lemma move_ball_paddles:
  "paddle1_y (move_ball g) = paddle1_y g" "paddle2_y (move_ball g) = paddle2_y g"
  by (simp_all add: move_ball_def)

lemma wall_bounce_paddles:
  "paddle1_y (wall_bounce g) = paddle1_y g" "paddle2_y (wall_bounce g) = paddle2_y g"
  by (simp_all add: wall_bounce_def)

lemma paddle_bounce_paddles:
  "paddle1_y (paddle_bounce g) = paddle1_y g" "paddle2_y (paddle_bounce g) = paddle2_y g"
  by (simp_all add: paddle_bounce_def Let_def)

lemma score_exit_paddles:
  "paddle1_y (score_exit inp g) = paddle1_y g" "paddle2_y (score_exit inp g) = paddle2_y g"
  by (simp_all add: score_exit_def)

lemma move_paddles_no_hands: "move_paddles (Nth, Nth) g = g"
  by (simp add: move_paddles_def)

lemma tick_without_hands_keeps_paddles:
  "hands_data inp = (Nth, Nth) \<Longrightarrow>
   paddle1_y (fst (start_pong_game_tick inp g)) = paddle1_y g
   \<and> paddle2_y (fst (start_pong_game_tick inp g)) = paddle2_y g"
  by (simp add: start_pong_game_tick_def Let_def before_exit_test_def score_exit_paddles
      paddle_bounce_paddles wall_bounce_paddles move_ball_paddles move_paddles_no_hands
      speed_ramp_paddles)

text \<open>
  The loop of \<^verbatim>\<open>findPosition\<close>: slot 0 ends up labelled "left" exactly when it was so
  before or some hand of the list has its centre left of \<^verbatim>\<open>size_frame // 2\<close>; likewise
  slot 1 and "right"; hands whose centre is on that column change nothing.
\<close>

lemma place_hand_sides:
  assumes "landmark \<noteq> []"
  shows "\<exists>slots'. place_hand w h size_frame landmark slots = Inr slots'
     \<and> (slot_side (fst slots') = ''left'') =
         (slot_side (fst slots) = ''left'' \<or> hand_center_x w h landmark < size_frame div 2)
     \<and> (slot_side (snd slots') = ''right'') =
         (slot_side (snd slots) = ''right'' \<or> hand_center_x w h landmark > size_frame div 2)
     \<and> (hand_center_x w h landmark = size_frame div 2 \<longrightarrow> slots' = slots)"
  using assms
  by (cases slots) (auto simp add: place_hand_def hand_center_x_def Let_def slot_side_def)

lemma findPosition_loop_sides:
  assumes "list_all (\<lambda>landmark. landmark \<noteq> []) hands" and "handNo + length hands \<le> maxHands"
  shows "\<exists>hdata. findPosition_loop maxHands w h size_frame handNo hands slots = Inr hdata
     \<and> (slot_side (fst hdata) = ''left'') =
         (slot_side (fst slots) = ''left''
          \<or> list_ex (\<lambda>l. hand_center_x w h l < size_frame div 2) hands)
     \<and> (slot_side (snd hdata) = ''right'') =
         (slot_side (snd slots) = ''right''
          \<or> list_ex (\<lambda>l. hand_center_x w h l > size_frame div 2) hands)
     \<and> (list_all (\<lambda>l. hand_center_x w h l = size_frame div 2) hands \<longrightarrow> hdata = slots)"
  using assms
proof (induction hands arbitrary: handNo slots)
  case Nil
  then show ?case by simp
next
  case (Cons myHand rest)
  from Cons.prems have ne: "myHand \<noteq> []" and r: "list_all (\<lambda>landmark. landmark \<noteq> []) rest"
    and n: "Suc handNo + length rest \<le> maxHands" and lt: "\<not> handNo \<ge> maxHands"
    by simp_all
  from place_hand_sides [OF ne, of w h size_frame slots]
  obtain slots' where p: "place_hand w h size_frame myHand slots = Inr slots'"
    and l: "(slot_side (fst slots') = ''left'') =
         (slot_side (fst slots) = ''left'' \<or> hand_center_x w h myHand < size_frame div 2)"
    and rr: "(slot_side (snd slots') = ''right'') =
         (slot_side (snd slots) = ''right'' \<or> hand_center_x w h myHand > size_frame div 2)"
    and e: "hand_center_x w h myHand = size_frame div 2 \<longrightarrow> slots' = slots"
    by blast
  from Cons.IH [OF r n, of slots']
  obtain hdata where
    f: "findPosition_loop maxHands w h size_frame (Suc handNo) rest slots' = Inr hdata"
    and l2: "(slot_side (fst hdata) = ''left'') =
         (slot_side (fst slots') = ''left''
          \<or> list_ex (\<lambda>l. hand_center_x w h l < size_frame div 2) rest)"
    and r2: "(slot_side (snd hdata) = ''right'') =
         (slot_side (snd slots') = ''right''
          \<or> list_ex (\<lambda>l. hand_center_x w h l > size_frame div 2) rest)"
    and e2: "list_all (\<lambda>l. hand_center_x w h l = size_frame div 2) rest \<longrightarrow> hdata = slots'"
    by blast
  have "findPosition_loop maxHands w h size_frame handNo (myHand # rest) slots = Inr hdata"
    using lt p f by simp
  moreover have "(slot_side (fst hdata) = ''left'') =
         (slot_side (fst slots) = ''left''
          \<or> list_ex (\<lambda>l. hand_center_x w h l < size_frame div 2) (myHand # rest))"
    using l l2 by auto
  moreover have "(slot_side (snd hdata) = ''right'') =
         (slot_side (snd slots) = ''right''
          \<or> list_ex (\<lambda>l. hand_center_x w h l > size_frame div 2) (myHand # rest))"
    using rr r2 by auto
  moreover have "list_all (\<lambda>l. hand_center_x w h l = size_frame div 2) (myHand # rest)
      \<longrightarrow> hdata = slots"
    using e e2 by auto
  ultimately show ?case by blast
qed

text \<open>
  C10, as stated, fails on a frame of odd width, where half the width is not the column
  \<^verbatim>\<open>size_frame // 2\<close> that the code compares with. On a 1280 by 720 screen the Pong
  camera image is 365 wide; a hand centred on column 182 is strictly left of half the
  width (182.5), and is given no side.
\<close>

theorem centre_below_half_width_gets_no_side:
  "pong_camera_size 1280 720 = (365, 205)
   \<and> hand_center_x 365 205 centred_hand = 182
   \<and> (of_int (hand_center_x 365 205 centred_hand) :: rat) < 365 / 2
   \<and> findPosition 2 365 205 365 [centred_hand] = Inr (Nth, Nth)"
  by code_simp

text \<open>
  C10, amended. For a frame whose detected hands (no more than \<^verbatim>\<open>maxHands\<close>, each with
  landmarks) are processed by \<^verbatim>\<open>findPosition\<close>: slot 0 carries the label "left" if and
  only if some hand's bounding-box centre x is strictly less than \<^verbatim>\<open>size_frame // 2\<close>
  (half the width rounded down), and slot 1 the label "right" if and only if some hand's
  centre x is strictly greater. If every hand's centre x equals \<^verbatim>\<open>size_frame // 2\<close>, both
  slots keep their initial value, and the Pong tick that gets them leaves both paddles
  where they are.
\<close>

theorem hand_sides_by_floor_half:
  assumes "list_all (\<lambda>landmark. landmark \<noteq> []) hands" and "length hands \<le> maxHands"
  shows "\<exists>hdata. findPosition maxHands w h size_frame hands = Inr hdata
     \<and> (slot_side (fst hdata) = ''left'') =
         list_ex (\<lambda>l. hand_center_x w h l < size_frame div 2) hands
     \<and> (slot_side (snd hdata) = ''right'') =
         list_ex (\<lambda>l. hand_center_x w h l > size_frame div 2) hands
     \<and> (list_all (\<lambda>l. hand_center_x w h l = size_frame div 2) hands \<longrightarrow>
          hdata = (Nth, Nth)
          \<and> paddle1_y (fst (start_pong_game_tick (inp\<lparr>hands_data := hdata\<rparr>) g)) = paddle1_y g
          \<and> paddle2_y (fst (start_pong_game_tick (inp\<lparr>hands_data := hdata\<rparr>) g)) = paddle2_y g)"
proof -
  from assms(2) have n: "0 + length hands \<le> maxHands" by simp
  from findPosition_loop_sides [OF assms(1) n, of w h size_frame "(Nth, Nth)"]
  obtain hdata where f: "findPosition maxHands w h size_frame hands = Inr hdata"
    and l: "(slot_side (fst hdata) = ''left'') =
         list_ex (\<lambda>l. hand_center_x w h l < size_frame div 2) hands"
    and r: "(slot_side (snd hdata) = ''right'') =
         list_ex (\<lambda>l. hand_center_x w h l > size_frame div 2) hands"
    and e: "list_all (\<lambda>l. hand_center_x w h l = size_frame div 2) hands \<longrightarrow> hdata = (Nth, Nth)"
    by (auto simp add: findPosition_def slot_side_def)
  have "hands_data (inp\<lparr>hands_data := (Nth, Nth)\<rparr>) = (Nth, Nth)" by simp
  then have k: "paddle1_y (fst (start_pong_game_tick (inp\<lparr>hands_data := (Nth, Nth)\<rparr>) g)) = paddle1_y g
      \<and> paddle2_y (fst (start_pong_game_tick (inp\<lparr>hands_data := (Nth, Nth)\<rparr>) g)) = paddle2_y g"
    by (rule tick_without_hands_keeps_paddles)
  from f l r e k show ?thesis by auto
qed

text \<open>
  The theorem at work on the frame above: one hand on column 182 of 365, no side, and
  the tick from \<^verbatim>\<open>near_left_edge\<close> moves no paddle.
\<close>

theorem hand_sides_by_floor_half_witness:
  "list_all (\<lambda>landmark. landmark \<noteq> []) [centred_hand] \<and> length [centred_hand] \<le> 2
   \<and> list_all (\<lambda>l. hand_center_x 365 205 l = 365 div 2) [centred_hand]
   \<and> findPosition 2 365 205 365 [centred_hand] = Inr (Nth, Nth)
   \<and> paddle1_y (fst (start_pong_game_tick (idle_pong_input\<lparr>hands_data := (Nth, Nth)\<rparr>)
        near_left_edge)) = paddle1_y near_left_edge
   \<and> paddle2_y (fst (start_pong_game_tick (idle_pong_input\<lparr>hands_data := (Nth, Nth)\<rparr>)
        near_left_edge)) = paddle2_y near_left_edge"
proof -
  have a: "list_all (\<lambda>landmark. landmark \<noteq> []) [centred_hand]" by (simp add: centred_hand_def)
  have b: "length [centred_hand] \<le> 2" by simp
  have c: "list_all (\<lambda>l. hand_center_x 365 205 l = 365 div 2) [centred_hand]" by code_simp
  from hand_sides_by_floor_half [OF a b, of 365 205 365 idle_pong_input near_left_edge] c
  have "findPosition 2 365 205 365 [centred_hand] = Inr (Nth, Nth)
   \<and> paddle1_y (fst (start_pong_game_tick (idle_pong_input\<lparr>hands_data := (Nth, Nth)\<rparr>)
        near_left_edge)) = paddle1_y near_left_edge
   \<and> paddle2_y (fst (start_pong_game_tick (idle_pong_input\<lparr>hands_data := (Nth, Nth)\<rparr>)
        near_left_edge)) = paddle2_y near_left_edge"
    by auto
  with a b c show ?thesis by blast
qed

section \<open>Properties of the runner engine: the game speed\<close>

text \<open>
  A run without collision: the score is a tenth of the number of ticks. Up to tick 999
  the integer part of the score is below 100 and the speed stays 10; in each of the
  ticks 1000 to 1009 the integer part is 100 and the speed block adds 0.5.
\<close>

lemma run_dino_game_nonempty: "run_dino_game keys g \<noteq> []"
  by (cases keys) simp_all

lemma run_dino_game_drop:
  "drop (length xs) (run_dino_game (xs @ ys) g) = run_dino_game ys (last (run_dino_game xs g))"
  by (induction xs arbitrary: g) (simp_all add: run_dino_game_nonempty)









section \<open>Properties of the runner engine: the jump\<close>
















text \<open>
  Nothing writes the gravity: in every state of a game it is the 0.6 of
  \<^verbatim>\<open>Dino.__init__\<close>.
\<close>

lemma Dino_update_gravity: "gravity (Dino_update jump_input duck_input d) = gravity d"
  by (simp add: Dino_update_def jump_start_def Let_def)

lemma run_dino_game_tick_gravity:
  "gravity (the_dino (run_dino_game_tick inp g)) = gravity (the_dino g)"
  by (simp add: run_dino_game_tick_def speed_up_def Let_def Dino_update_gravity)

lemma run_dino_game_gravity:
  "gravity (the_dino g) = 6 / 10 \<Longrightarrow>
   list_all (\<lambda>s. gravity (the_dino s) = 6 / 10) (run_dino_game keys g)"
  by (induction keys arbitrary: g) (simp_all add: run_dino_game_tick_gravity)

lemma gravity_of_every_game_state:
  "list_all (\<lambda>s. gravity (the_dino s) = 6 / 10) (run_dino_game keys (init_dino_game screen_height))"
  by (rule run_dino_game_gravity) (simp add: init_dino_game_def Dino_init_def)



section \<open>Properties of the coordinate mapping of the balloon game\<close>






end
